theory Spec2Isabelle
  imports Main "HOL-Library.AList"
begin

section \<open>Seat locking of the gravit server (src/server.js)\<close>

text \<open>
  The seat-lock engine of \<^verbatim>\<open>src/server.js\<close>: the lock table \<^verbatim>\<open>lockedSeats\<close>, the
  expiry sweeper run by \<^verbatim>\<open>setInterval\<close>, and the socket handlers \<^verbatim>\<open>joinEvent\<close>,
  \<^verbatim>\<open>lockSeat\<close> and \<^verbatim>\<open>unlockSeat\<close>.

  Scope of the embedding.
  \<^item> The identifiers a handler works with (\<^verbatim>\<open>eventId\<close>, \<^verbatim>\<open>seatIndex\<close>, \<^verbatim>\<open>userId\<close>) are
    scalar JavaScript values: \<^verbatim>\<open>undefined\<close>, \<^verbatim>\<open>null\<close>, booleans, integral numbers and
    strings. Fractional numbers, \<^verbatim>\<open>NaN\<close>, numbers so large that JavaScript prints them
    with an exponent, arrays and objects as identifiers are not modelled.
  \<^item> \<^verbatim>\<open>Date.now()\<close> is an integer number of milliseconds, passed to each operation as
    \<open>now\<close>.
  \<^item> \<^verbatim>\<open>lockedSeats\<close>, the objects stored in it and the lock records are ordinary
    JavaScript objects: a property is looked up among the own properties of the object,
    then along its prototype chain, which ends in \<^verbatim>\<open>Object.prototype\<close>. The state holds
    the own properties of \<^verbatim>\<open>lockedSeats\<close>, the own properties of \<^verbatim>\<open>Object.prototype\<close> and
    the objects the handlers created. The file is an ES module, so its code is strict:
    an assignment that fails raises a TypeError.
  \<^item> The members of \<^verbatim>\<open>Object.prototype\<close> (\<^verbatim>\<open>toString\<close>, \<^verbatim>\<open>constructor\<close>, ...) are functions
    of the JavaScript runtime. Such a function is a value here, but its own properties
    are not part of the state: an operation that reads or writes a property of one ends
    with \<open>Unmodelled\<close>, and nothing is said about it.
  \<^item> Each operation runs to completion before the next one starts, as on the single
    thread of the event loop; an operation takes the state and returns the new state,
    the messages it sent, in order, and how it completed.
\<close>

subsection \<open>Scalar values\<close>

datatype jsval = JUndefined | JNull | JBool bool | JNum int | JStr string

text \<open>\<^verbatim>\<open>!v\<close> is true exactly when \<open>v\<close> is not truthy.\<close>

fun truthy :: "jsval \<Rightarrow> bool" where
  "truthy JUndefined = False"
| "truthy JNull = False"
| "truthy (JBool b) = b"
| "truthy (JNum n) = (n \<noteq> 0)"
| "truthy (JStr s) = (s \<noteq> [])"

definition digit_char :: "nat \<Rightarrow> char" where
  "digit_char d = ''0123456789'' ! d"

function show_nat :: "nat \<Rightarrow> string" where
  "show_nat n = (if n < 10 then [digit_char n] else show_nat (n div 10) @ [digit_char (n mod 10)])"
  by pat_completeness auto
termination
  by (relation "measure id") auto

declare show_nat.simps [simp del]

text \<open>
  The conversion to a string that a property access \<^verbatim>\<open>obj[v]\<close> and a template literal
  \<^verbatim>\<open>`event-${v}`\<close> both apply to a scalar.
\<close>

fun ToString :: "jsval \<Rightarrow> string" where
  "ToString JUndefined = ''undefined''"
| "ToString JNull = ''null''"
| "ToString (JBool b) = (if b then ''true'' else ''false'')"
| "ToString (JNum n) = (if n < 0 then CHR ''-'' # show_nat (nat (- n)) else show_nat (nat n))"
| "ToString (JStr s) = s"

subsection \<open>Objects\<close>

text \<open>
  An object value is an object a handler created (\<open>ORef\<close>, an address of the heap),
  \<^verbatim>\<open>Object.prototype\<close> itself, or a function of the runtime that is a member of
  \<^verbatim>\<open>Object.prototype\<close>, named by the key it is the original value of.
\<close>

datatype objval = ORef nat | OProto | OBuiltin string

datatype anyval = Scalar jsval | Obj objval

fun truthy_value :: "anyval \<Rightarrow> bool" where
  "truthy_value (Scalar v) = truthy v"
| "truthy_value (Obj _) = True"

text \<open>
  The own properties of a created object, in creation order. The handlers create objects
  by \<^verbatim>\<open>{}\<close> and \<^verbatim>\<open>{ userId, timestamp: now }\<close> and afterwards only store a new lock record
  under a key (\<^verbatim>\<open>lockedSeats[eventId][seatIndex] = {...}\<close>) or a number under
  \<^verbatim>\<open>timestamp\<close> (\<^verbatim>\<open>existingLock.timestamp = now\<close>). So a property is the \<^verbatim>\<open>userId\<close> of a
  lock literal, a numeric \<^verbatim>\<open>timestamp\<close>, or a key holding a created object. All of them
  are writable, enumerable and configurable.
\<close>

datatype entry = UserIdField jsval | TimestampField int | Member string nat

fun key_of :: "entry \<Rightarrow> string" where
  "key_of (UserIdField _) = ''userId''"
| "key_of (TimestampField _) = ''timestamp''"
| "key_of (Member k _) = k"

fun entry_value :: "entry \<Rightarrow> anyval" where
  "entry_value (UserIdField u) = Scalar u"
| "entry_value (TimestampField t) = Scalar (JNum t)"
| "entry_value (Member _ r) = Obj (ORef r)"

record obj =
  entries :: "entry list"
  proto :: "nat option"

text \<open>
  \<open>proto = None\<close> is the prototype \<^verbatim>\<open>Object.prototype\<close> that every literal starts with;
  \<open>Some p\<close> is a created object, set by an assignment to \<^verbatim>\<open>__proto__\<close>.

  An own data property of \<^verbatim>\<open>Object.prototype\<close>: \<open>Original\<close> is the runtime's function
  (writable, not enumerable, configurable); \<open>Overwritten r\<close> is such a property after an
  assignment of the object \<open>r\<close> (still not enumerable); \<open>Added r\<close> is a property an
  assignment created (enumerable).
\<close>

datatype slot = Original | Overwritten nat | Added nat

fun slot_value :: "string \<Rightarrow> slot \<Rightarrow> objval" where
  "slot_value k Original = OBuiltin k"
| "slot_value k (Overwritten r) = ORef r"
| "slot_value k (Added r) = ORef r"

record state =
  table :: "(string \<times> nat) list"
  objproto :: "(string \<times> slot) list"
  heap :: "obj list"

text \<open>
  \<open>table\<close> holds the own properties of \<^verbatim>\<open>lockedSeats\<close>: the only assignment to one is
  \<^verbatim>\<open>lockedSeats[eventId] = {}\<close>, so each holds a created object. The prototype of
  \<^verbatim>\<open>lockedSeats\<close> is \<^verbatim>\<open>Object.prototype\<close>. Besides its data properties \<^verbatim>\<open>Object.prototype\<close>
  has the accessor \<^verbatim>\<open>__proto__\<close>, whose getter returns the prototype of the object it is
  read on and whose setter sets it; the prototype of \<^verbatim>\<open>Object.prototype\<close> is \<^verbatim>\<open>null\<close> and
  cannot be changed.

  The state when the server starts: no event, no object, and \<^verbatim>\<open>Object.prototype\<close> with
  the data properties the ECMAScript standard gives it.
\<close>

definition builtin_names :: "string list" where
  "builtin_names =
     [''constructor'', ''__defineGetter__'', ''__defineSetter__'', ''hasOwnProperty'',
      ''__lookupGetter__'', ''__lookupSetter__'', ''isPrototypeOf'', ''propertyIsEnumerable'',
      ''toString'', ''valueOf'', ''toLocaleString'']"

definition init_state :: state where
  "init_state = \<lparr>table = [], objproto = map (\<lambda>k. (k, Original)) builtin_names, heap = []\<rparr>"

definition empty_obj :: obj where
  "empty_obj = \<lparr>entries = [], proto = None\<rparr>"

definition obj_at :: "obj list \<Rightarrow> nat \<Rightarrow> obj" where
  "obj_at h r = (if r < length h then h ! r else empty_obj)"

text \<open>The own property \<open>k\<close> of a created object, and its own \<^verbatim>\<open>timestamp\<close>: a number or an object.\<close>

fun find_member :: "entry list \<Rightarrow> string \<Rightarrow> anyval option" where
  "find_member [] k = None"
| "find_member (x # xs) k = (if key_of x = k then Some (entry_value x) else find_member xs k)"

fun find_timestamp :: "entry list \<Rightarrow> (int + nat) option" where
  "find_timestamp [] = None"
| "find_timestamp (TimestampField t # xs) = Some (Inl t)"
| "find_timestamp (Member k r # xs) = (if k = ''timestamp'' then Some (Inr r) else find_timestamp xs)"
| "find_timestamp (UserIdField u # xs) = find_timestamp xs"

text \<open>
  The lookup along the created objects of a prototype chain; \<open>None\<close> when none of them
  has the property, and the lookup goes on in \<^verbatim>\<open>Object.prototype\<close>. A prototype is always
  an object created later than the object it is set on, so a chain visits each object at
  most once and the number of objects bounds its length.
\<close>

fun chain_find :: "nat \<Rightarrow> obj list \<Rightarrow> nat \<Rightarrow> string \<Rightarrow> anyval option" where
  "chain_find 0 h r k = None"
| "chain_find (Suc n) h r k =
     (case find_member (entries (obj_at h r)) k of
        Some v \<Rightarrow> Some v
      | None \<Rightarrow> (case proto (obj_at h r) of None \<Rightarrow> None | Some p \<Rightarrow> chain_find n h p k))"

fun chain_timestamp :: "nat \<Rightarrow> obj list \<Rightarrow> nat \<Rightarrow> (int + nat) option" where
  "chain_timestamp 0 h r = None"
| "chain_timestamp (Suc n) h r =
     (case find_timestamp (entries (obj_at h r)) of
        Some v \<Rightarrow> Some v
      | None \<Rightarrow> (case proto (obj_at h r) of None \<Rightarrow> None | Some p \<Rightarrow> chain_timestamp n h p))"

definition objproto_get :: "state \<Rightarrow> string \<Rightarrow> objval option" where
  "objproto_get st k = map_option (slot_value k) (map_of (objproto st) k)"

datatype js_exn = TypeError | SocketError | OutOfModel

text \<open>\<^verbatim>\<open>lockedSeats[e]\<close>: an object, or \<open>None\<close> for \<^verbatim>\<open>undefined\<close>.\<close>

definition get_event :: "state \<Rightarrow> string \<Rightarrow> objval option" where
  "get_event st e =
     (case map_of (table st) e of
        Some r \<Rightarrow> Some (ORef r)
      | None \<Rightarrow>
          (case objproto_get st e of
             Some v \<Rightarrow> Some v
           | None \<Rightarrow> if e = ''__proto__'' then Some OProto else None))"

text \<open>\<^verbatim>\<open>v[k]\<close> for an object \<open>v\<close>.\<close>

definition get_member :: "state \<Rightarrow> objval \<Rightarrow> string \<Rightarrow> js_exn + anyval" where
  "get_member st v k =
     (case v of
        ORef r \<Rightarrow>
          Inr (case chain_find (length (heap st)) (heap st) r k of
                 Some x \<Rightarrow> x
               | None \<Rightarrow>
                   (case objproto_get st k of
                      Some x \<Rightarrow> Obj x
                    | None \<Rightarrow>
                        if k = ''__proto__''
                        then (case proto (obj_at (heap st) r) of
                                None \<Rightarrow> Obj OProto
                              | Some p \<Rightarrow> Obj (ORef p))
                        else Scalar JUndefined))
      | OProto \<Rightarrow>
          Inr (case objproto_get st k of
                 Some x \<Rightarrow> Obj x
               | None \<Rightarrow> if k = ''__proto__'' then Scalar JNull else Scalar JUndefined)
      | OBuiltin b \<Rightarrow> Inl OutOfModel)"

text \<open>
  Numbers as the subtraction and the comparisons of the source see them:
  \<^verbatim>\<open>now - undefined\<close> and \<^verbatim>\<open>now - "[object Object]"\<close> are \<^verbatim>\<open>NaN\<close>, and every comparison with
  \<^verbatim>\<open>NaN\<close> is false.
\<close>

datatype num = Num int | NaN

fun num_le :: "num \<Rightarrow> int \<Rightarrow> bool" where
  "num_le (Num d) c = (d \<le> c)"
| "num_le NaN c = False"

fun num_gt :: "num \<Rightarrow> int \<Rightarrow> bool" where
  "num_gt (Num d) c = (d > c)"
| "num_gt NaN c = False"

fun since :: "int \<Rightarrow> num \<Rightarrow> num" where
  "since now (Num t) = Num (now - t)"
| "since now NaN = NaN"

text \<open>
  The conversion of an object to a number in \<^verbatim>\<open>now - lock.timestamp\<close>. The object's
  \<^verbatim>\<open>valueOf\<close>, when it is a function, is the original one and returns the object; then
  \<^verbatim>\<open>toString\<close> is called when it is a function, and its string is not a numeral. When
  \<^verbatim>\<open>toString\<close> is not a function either, the conversion raises a TypeError. A function
  of the runtime has the \<^verbatim>\<open>toString\<close> of \<^verbatim>\<open>Function.prototype\<close>.
\<close>

definition object_to_number :: "state \<Rightarrow> objval \<Rightarrow> js_exn + num" where
  "object_to_number st v =
     (case v of
        OBuiltin b \<Rightarrow> Inr NaN
      | _ \<Rightarrow>
          (case get_member st v ''toString'' of
             Inr (Obj (OBuiltin b)) \<Rightarrow> Inr NaN
           | _ \<Rightarrow> Inl TypeError))"

text \<open>
  \<^verbatim>\<open>lock.timestamp\<close> as a number, for any value \<open>lock\<close>. A property of \<^verbatim>\<open>undefined\<close> or
  \<^verbatim>\<open>null\<close> raises a TypeError; a scalar or a function of the runtime has no
  \<^verbatim>\<open>timestamp\<close> or \<^verbatim>\<open>userId\<close> of its own and inherits the one of \<^verbatim>\<open>Object.prototype\<close>.
\<close>

definition read_timestamp :: "state \<Rightarrow> anyval \<Rightarrow> js_exn + num" where
  "read_timestamp st lock =
     (if lock = Scalar JUndefined \<or> lock = Scalar JNull then Inl TypeError
      else
        case (case lock of
                Obj (ORef r) \<Rightarrow> chain_timestamp (length (heap st)) (heap st) r
              | _ \<Rightarrow> None) of
          Some (Inl t) \<Rightarrow> Inr (Num t)
        | Some (Inr r) \<Rightarrow> object_to_number st (ORef r)
        | None \<Rightarrow>
            (case objproto_get st ''timestamp'' of
               Some x \<Rightarrow> object_to_number st x
             | None \<Rightarrow> Inr NaN))"

definition read_userId :: "state \<Rightarrow> anyval \<Rightarrow> js_exn + anyval" where
  "read_userId st lock =
     (if lock = Scalar JUndefined \<or> lock = Scalar JNull then Inl TypeError
      else
        case (case lock of
                Obj (ORef r) \<Rightarrow> chain_find (length (heap st)) (heap st) r ''userId''
              | _ \<Rightarrow> None) of
          Some x \<Rightarrow> Inr x
        | None \<Rightarrow>
            (case objproto_get st ''userId'' of
               Some x \<Rightarrow> Inr (Obj x)
             | None \<Rightarrow> Inr (Scalar JUndefined)))"

text \<open>
  An assignment to a property of a created object replaces the own property of that key
  where it stands, or adds a new one at the end.
\<close>

fun put_entry :: "entry \<Rightarrow> entry list \<Rightarrow> entry list" where
  "put_entry e [] = [e]"
| "put_entry e (x # xs) = (if key_of x = key_of e then e # xs else x # put_entry e xs)"

definition set_entries :: "nat \<Rightarrow> entry list \<Rightarrow> state \<Rightarrow> state" where
  "set_entries r es st = st\<lparr>heap := (heap st)[r := (obj_at (heap st) r)\<lparr>entries := es\<rparr>]\<rparr>"

definition set_timestamp :: "nat \<Rightarrow> int \<Rightarrow> state \<Rightarrow> state" where
  "set_timestamp r now st =
     set_entries r (put_entry (TimestampField now) (entries (obj_at (heap st) r))) st"

text \<open>A new object: its address is the next free one.\<close>

definition alloc :: "obj \<Rightarrow> state \<Rightarrow> state \<times> nat" where
  "alloc ob st = (st\<lparr>heap := heap st @ [ob]\<rparr>, length (heap st))"

text \<open>
  \<^verbatim>\<open>v[k] = l\<close> for an object \<open>v\<close> and a created object \<open>l\<close>. On a created object: an own
  property is overwritten; otherwise, when the key is \<^verbatim>\<open>__proto__\<close> and the chain reaches
  the accessor of \<^verbatim>\<open>Object.prototype\<close>, the setter makes \<open>l\<close> the prototype of \<open>v\<close>;
  otherwise a new own property is added (an inherited data property is writable). On
  \<^verbatim>\<open>Object.prototype\<close>: a data property is overwritten or added, and \<^verbatim>\<open>__proto__\<close> raises
  a TypeError, since its prototype cannot be changed.
\<close>

definition store_member :: "state \<Rightarrow> objval \<Rightarrow> string \<Rightarrow> nat \<Rightarrow> js_exn + state" where
  "store_member st v k l =
     (case v of
        ORef r \<Rightarrow>
          (let ob = obj_at (heap st) r
           in if k = ''__proto__''
                 \<and> chain_find (length (heap st)) (heap st) r k = None
                 \<and> map_of (objproto st) k = None
              then Inr (st\<lparr>heap := (heap st)[r := ob\<lparr>proto := Some l\<rparr>]\<rparr>)
              else Inr (set_entries r (put_entry (Member k l) (entries ob)) st))
      | OProto \<Rightarrow>
          (case map_of (objproto st) k of
             Some (Added _) \<Rightarrow> Inr (st\<lparr>objproto := AList.update k (Added l) (objproto st)\<rparr>)
           | Some _ \<Rightarrow> Inr (st\<lparr>objproto := AList.update k (Overwritten l) (objproto st)\<rparr>)
           | None \<Rightarrow>
               if k = ''__proto__'' then Inl TypeError
               else Inr (st\<lparr>objproto := objproto st @ [(k, Added l)]\<rparr>))
      | OBuiltin b \<Rightarrow> Inl OutOfModel)"

text \<open>\<^verbatim>\<open>delete v[k]\<close>: removes an own property, and does nothing when there is none.\<close>

definition delete_member :: "state \<Rightarrow> objval \<Rightarrow> string \<Rightarrow> js_exn + state" where
  "delete_member st v k =
     (case v of
        ORef r \<Rightarrow>
          Inr (set_entries r (filter (\<lambda>x. key_of x \<noteq> k) (entries (obj_at (heap st) r))) st)
      | OProto \<Rightarrow> Inr (st\<lparr>objproto := AList.delete k (objproto st)\<rparr>)
      | OBuiltin b \<Rightarrow> Inl OutOfModel)"

text \<open>
  \<^verbatim>\<open>Object.keys\<close> lists the own enumerable keys: those that are array indices first, in
  ascending numeric order, then the other keys in creation order.
\<close>

definition is_digit :: "char \<Rightarrow> bool" where
  "is_digit c = (c \<in> set ''0123456789'')"

definition digit_val :: "char \<Rightarrow> int" where
  "digit_val c = of_char c - 48"

definition index_val :: "string \<Rightarrow> int" where
  "index_val s = foldl (\<lambda>n c. 10 * n + digit_val c) 0 s"

definition is_array_index :: "string \<Rightarrow> bool" where
  "is_array_index s =
     (s \<noteq> [] \<and> list_all is_digit s \<and> (s = ''0'' \<or> hd s \<noteq> CHR ''0'') \<and> index_val s < 4294967295)"

definition key_order :: "string list \<Rightarrow> string list" where
  "key_order ks =
     sort_key index_val (filter is_array_index ks) @ filter (\<lambda>k. \<not> is_array_index k) ks"

fun is_added :: "string \<times> slot \<Rightarrow> bool" where
  "is_added (k, Added r) = True"
| "is_added (k, _) = False"

definition Object_keys :: "state \<Rightarrow> objval \<Rightarrow> string list" where
  "Object_keys st v =
     (case v of
        ORef r \<Rightarrow> key_order (map key_of (entries (obj_at (heap st) r)))
      | OProto \<Rightarrow> key_order (map fst (filter is_added (objproto st)))
      | OBuiltin b \<Rightarrow> [])"

subsection \<open>Locks\<close>

record lock =
  userId :: jsval
  timestamp :: int

definition LOCK_EXPIRY_TIME :: int where
  "LOCK_EXPIRY_TIME = 5 * 60 * 1000"

text \<open>
  The lock record that \<^verbatim>\<open>lockedSeats[e] && lockedSeats[e][s]\<close> finds, if it finds one: an
  object with a \<^verbatim>\<open>userId\<close> and a numeric \<^verbatim>\<open>timestamp\<close> of its own.
\<close>

definition lock_of :: "obj \<Rightarrow> lock option" where
  "lock_of ob =
     (case (find_member (entries ob) ''userId'', find_timestamp (entries ob)) of
        (Some (Scalar u), Some (Inl t)) \<Rightarrow> Some \<lparr>userId = u, timestamp = t\<rparr>
      | _ \<Rightarrow> None)"

definition lock_ref :: "state \<Rightarrow> string \<Rightarrow> string \<Rightarrow> nat option" where
  "lock_ref st e s =
     (case get_event st e of
        None \<Rightarrow> None
      | Some v \<Rightarrow>
          (case get_member st v s of
             Inr (Obj (ORef r)) \<Rightarrow> Some r
           | _ \<Rightarrow> None))"

definition lock_at :: "state \<Rightarrow> string \<Rightarrow> string \<Rightarrow> lock option" where
  "lock_at st e s =
     (case lock_ref st e s of None \<Rightarrow> None | Some r \<Rightarrow> lock_of (obj_at (heap st) r))"

subsection \<open>Messages\<close>

datatype message =
    LockedSeats "(string \<times> anyval) list"
  | SeatLocked jsval jsval
  | SeatLockFailed jsval string
  | SeatUnlocked jsval

text \<open>
  \<open>SocketJoin r\<close> is \<^verbatim>\<open>socket.join(r)\<close>, \<open>SocketEmit m\<close> is \<^verbatim>\<open>socket.emit\<close> (to the
  requesting connection only), \<open>RoomEmit r m\<close> is \<^verbatim>\<open>io.to(r).emit\<close> (to every
  connection that joined \<open>r\<close>), \<open>ConsoleError\<close> and \<open>ConsoleLog\<close> are the diagnostics
  written by \<^verbatim>\<open>console.error\<close> and \<^verbatim>\<open>console.log\<close>.
\<close>

datatype effect =
    SocketJoin string
  | SocketEmit message
  | RoomEmit string message
  | ConsoleError string
  | ConsoleLog string

definition room_of_key :: "string \<Rightarrow> string" where
  "room_of_key e = ''event-'' @ e"

definition room :: "jsval \<Rightarrow> string" where
  "room eventId = room_of_key (ToString eventId)"

text \<open>
  How a handler ends: it returns, it raises an exception to its caller, or it did
  something this model does not describe.
\<close>

datatype completion = Normal | Thrown | Unmodelled

text \<open>
  The argument of \<^verbatim>\<open>lockSeat\<close> and \<^verbatim>\<open>unlockSeat\<close>. The parameter list
  \<^verbatim>\<open>({ eventId, seatIndex, userId })\<close> takes the argument apart before the \<^verbatim>\<open>try\<close> block
  is entered: with no argument, or \<^verbatim>\<open>null\<close>, that raises a TypeError that nothing
  catches. Otherwise the three names are bound to the values read from the argument;
  \<open>Payload\<close> carries these three values, which are scalars here.
\<close>

datatype payload = NoPayload | Payload jsval jsval jsval

subsection \<open>lockSeat\<close>

text \<open>
  The \<^verbatim>\<open>try\<close> block of the handler: the state it leaves, the messages it sent, and
  whether it ended normally or raised. \<^verbatim>\<open>if (!lockedSeats[eventId]) lockedSeats[eventId] = {}\<close>
  is \<open>ensure_event\<close>: the property read is \<^verbatim>\<open>undefined\<close> only when neither
  \<^verbatim>\<open>lockedSeats\<close> nor \<^verbatim>\<open>Object.prototype\<close> has it, and the assignment then adds it to
  \<^verbatim>\<open>lockedSeats\<close>.
\<close>

definition ensure_event :: "string \<Rightarrow> state \<Rightarrow> state \<times> objval" where
  "ensure_event e st =
     (case get_event st e of
        Some v \<Rightarrow> (st, v)
      | None \<Rightarrow>
          (let (st1, r) = alloc empty_obj st
           in (st1\<lparr>table := table st1 @ [(e, r)]\<rparr>, ORef r)))"

text \<open>
  \<^verbatim>\<open>existingLock.timestamp = now\<close>. It runs only after \<^verbatim>\<open>now - existingLock.timestamp\<close> was
  a number. On a created object it overwrites or adds the own property; on a scalar a
  strict assignment raises a TypeError.
\<close>

definition renew :: "anyval \<Rightarrow> int \<Rightarrow> state \<Rightarrow> js_exn + state" where
  "renew existingLock now st =
     (case existingLock of
        Obj (ORef r) \<Rightarrow> Inr (set_timestamp r now st)
      | Obj _ \<Rightarrow> Inl OutOfModel
      | Scalar _ \<Rightarrow> Inl TypeError)"

definition lockSeat_try ::
  "jsval \<Rightarrow> jsval \<Rightarrow> jsval \<Rightarrow> int \<Rightarrow> state \<Rightarrow> state \<times> effect list \<times> (js_exn + unit)" where
  "lockSeat_try eventId seatIndex uid now st =
     (if \<not> truthy eventId \<or> seatIndex = JUndefined \<or> \<not> truthy uid
      then (st, [SocketEmit (SeatLockFailed seatIndex ''Invalid lock request'')], Inr ())
      else
        let e = ToString eventId;
            s = ToString seatIndex;
            (st1, v) = ensure_event e st
        in case get_member st1 v s of
             Inl x \<Rightarrow> (st1, [], Inl x)
           | Inr existingLock \<Rightarrow>
               (case (if truthy_value existingLock
                      then (case read_timestamp st1 existingLock of
                              Inl x \<Rightarrow> Inl x
                            | Inr t \<Rightarrow> Inr (num_le (since now t) LOCK_EXPIRY_TIME))
                      else Inr False) of
                  Inl x \<Rightarrow> (st1, [], Inl x)
                | Inr True \<Rightarrow>
                    (case read_userId st1 existingLock of
                       Inl x \<Rightarrow> (st1, [], Inl x)
                     | Inr u \<Rightarrow>
                         if u \<noteq> Scalar uid
                         then (st1, [SocketEmit (SeatLockFailed seatIndex ''Seat already locked'')],
                               Inr ())
                         else (case renew existingLock now st1 of
                                 Inl x \<Rightarrow> (st1, [], Inl x)
                               | Inr st2 \<Rightarrow> (st2, [], Inr ())))
                | Inr False \<Rightarrow>
                    (let (st2, l) = alloc \<lparr>entries = [UserIdField uid, TimestampField now],
                                          proto = None\<rparr> st1
                     in case store_member st2 v s l of
                          Inl x \<Rightarrow> (st1, [], Inl x)
                        | Inr st3 \<Rightarrow>
                            (st3, [RoomEmit (room eventId) (SeatLocked seatIndex uid)], Inr ()))))"

text \<open>
  The handler: the parameter list, then the \<^verbatim>\<open>try\<close> block, whose \<^verbatim>\<open>catch\<close> answers a
  raised exception with \<^verbatim>\<open>Server error\<close>.
\<close>

definition lockSeat :: "payload \<Rightarrow> int \<Rightarrow> state \<Rightarrow> state \<times> effect list \<times> completion" where
  "lockSeat p now st =
     (case p of
        NoPayload \<Rightarrow> (st, [], Thrown)
      | Payload eventId seatIndex uid \<Rightarrow>
          (case lockSeat_try eventId seatIndex uid now st of
             (st1, out, Inr _) \<Rightarrow> (st1, out, Normal)
           | (st1, out, Inl OutOfModel) \<Rightarrow> (st1, out, Unmodelled)
           | (st1, out, Inl _) \<Rightarrow>
               (st1, out @ [SocketEmit (SeatLockFailed seatIndex ''Server error'')], Normal)))"

text \<open>
  The spec's result of a claim attempt, read off the messages: the attempt is denied with
  the reason of the \<^verbatim>\<open>seatLockFailed\<close> sent to the requester, and granted when none is sent.
\<close>

datatype lock_result = Granted | Denied string

fun result_of :: "effect list \<Rightarrow> lock_result" where
  "result_of [] = Granted"
| "result_of (SocketEmit (SeatLockFailed _ reason) # _) = Denied reason"
| "result_of (_ # es) = result_of es"

fun is_broadcast :: "effect \<Rightarrow> bool" where
  "is_broadcast (RoomEmit _ _) = True"
| "is_broadcast _ = False"

subsection \<open>unlockSeat\<close>

text \<open>
  \<^verbatim>\<open>!userId || lock.userId === userId || (Date.now() - lock.timestamp > LOCK_EXPIRY_TIME)\<close>,
  evaluated from the left, for a truthy \<open>lock\<close>.
\<close>

definition may_unlock :: "state \<Rightarrow> anyval \<Rightarrow> jsval \<Rightarrow> int \<Rightarrow> js_exn + bool" where
  "may_unlock st lock uid now =
     (if \<not> truthy uid then Inr True
      else case read_userId st lock of
             Inl x \<Rightarrow> Inl x
           | Inr u \<Rightarrow>
               if u = Scalar uid then Inr True
               else (case read_timestamp st lock of
                       Inl x \<Rightarrow> Inl x
                     | Inr t \<Rightarrow> Inr (num_gt (since now t) LOCK_EXPIRY_TIME)))"

definition unlockSeat_try ::
  "jsval \<Rightarrow> jsval \<Rightarrow> jsval \<Rightarrow> int \<Rightarrow> state \<Rightarrow> state \<times> effect list \<times> (js_exn + unit)" where
  "unlockSeat_try eventId seatIndex uid now st =
     (let e = ToString eventId; s = ToString seatIndex
      in case get_event st e of
           None \<Rightarrow> (st, [], Inr ())
         | Some v \<Rightarrow>
             (case get_member st v s of
                Inl x \<Rightarrow> (st, [], Inl x)
              | Inr lock \<Rightarrow>
                  if \<not> truthy_value lock then (st, [], Inr ())
                  else (case may_unlock st lock uid now of
                          Inl x \<Rightarrow> (st, [], Inl x)
                        | Inr False \<Rightarrow> (st, [], Inr ())
                        | Inr True \<Rightarrow>
                            (case delete_member st v s of
                               Inl x \<Rightarrow> (st, [], Inl x)
                             | Inr st1 \<Rightarrow>
                                 (st1, [RoomEmit (room eventId) (SeatUnlocked seatIndex)],
                                  Inr ())))))"

definition unlockSeat :: "payload \<Rightarrow> int \<Rightarrow> state \<Rightarrow> state \<times> effect list \<times> completion" where
  "unlockSeat p now st =
     (case p of
        NoPayload \<Rightarrow> (st, [], Thrown)
      | Payload eventId seatIndex uid \<Rightarrow>
          (case unlockSeat_try eventId seatIndex uid now st of
             (st1, out, Inr _) \<Rightarrow> (st1, out, Normal)
           | (st1, out, Inl OutOfModel) \<Rightarrow> (st1, out, Unmodelled)
           | (st1, out, Inl _) \<Rightarrow> (st1, out @ [ConsoleLog ''unlockSeat error:''], Normal)))"

subsection \<open>joinEvent\<close>

text \<open>
  The handler calls the socket library twice, \<^verbatim>\<open>socket.join\<close> and \<^verbatim>\<open>socket.emit\<close>.
  The library is not part of the repository: \<open>fault\<close> says which of the two calls
  raises, if any. A call that raises has no effect.
\<close>

datatype fault = NoFault | JoinThrows | EmitThrows

text \<open>
  \<^verbatim>\<open>activeLocks[seatIndex] = lock.userId\<close> on the local object \<^verbatim>\<open>activeLocks\<close>, whose
  prototype is \<^verbatim>\<open>Object.prototype\<close>: the own property is set, except that the key
  \<^verbatim>\<open>__proto__\<close> goes to the accessor of \<^verbatim>\<open>Object.prototype\<close>, which adds no property.
\<close>

definition snapshot_put ::
  "state \<Rightarrow> string \<Rightarrow> anyval \<Rightarrow> (string \<times> anyval) list \<Rightarrow> (string \<times> anyval) list" where
  "snapshot_put st k u activeLocks =
     (if k = ''__proto__'' \<and> map_of activeLocks k = None \<and> map_of (objproto st) k = None
      then activeLocks
      else AList.update k u activeLocks)"

text \<open>The \<^verbatim>\<open>forEach\<close> over the keys of \<^verbatim>\<open>lockedSeats[eventId]\<close>, filling \<^verbatim>\<open>activeLocks\<close>.\<close>

fun collect_active ::
  "int \<Rightarrow> state \<Rightarrow> objval \<Rightarrow> string list \<Rightarrow> (string \<times> anyval) list
     \<Rightarrow> js_exn + (string \<times> anyval) list" where
  "collect_active now st v [] activeLocks = Inr activeLocks"
| "collect_active now st v (seatIndex # ks) activeLocks =
     (case get_member st v seatIndex of
        Inl x \<Rightarrow> Inl x
      | Inr lock \<Rightarrow>
          (case read_timestamp st lock of
             Inl x \<Rightarrow> Inl x
           | Inr t \<Rightarrow>
               if num_le (since now t) LOCK_EXPIRY_TIME
               then (case read_userId st lock of
                       Inl x \<Rightarrow> Inl x
                     | Inr u \<Rightarrow>
                         collect_active now st v ks (snapshot_put st seatIndex u activeLocks))
               else collect_active now st v ks activeLocks))"

definition joinEvent_try :: "fault \<Rightarrow> jsval \<Rightarrow> int \<Rightarrow> state \<Rightarrow> effect list \<times> (js_exn + unit)" where
  "joinEvent_try f eventId now st =
     (if f = JoinThrows then ([], Inl SocketError)
      else
        case (case get_event st (ToString eventId) of
                None \<Rightarrow> Inr []
              | Some v \<Rightarrow> collect_active now st v (Object_keys st v) []) of
          Inl x \<Rightarrow> ([SocketJoin (room eventId)], Inl x)
        | Inr activeLocks \<Rightarrow>
            if f = EmitThrows then ([SocketJoin (room eventId)], Inl SocketError)
            else ([SocketJoin (room eventId), SocketEmit (LockedSeats activeLocks)], Inr ()))"

definition joinEvent :: "fault \<Rightarrow> jsval \<Rightarrow> int \<Rightarrow> state \<Rightarrow> state \<times> effect list \<times> completion" where
  "joinEvent f eventId now st =
     (case joinEvent_try f eventId now st of
        (out, Inr _) \<Rightarrow> (st, out, Normal)
      | (out, Inl OutOfModel) \<Rightarrow> (st, out, Unmodelled)
      | (out, Inl _) \<Rightarrow> (st, out @ [ConsoleError ''joinEvent Error:''], Normal))"

text \<open>The reply of \<^verbatim>\<open>joinEvent\<close>: a \<^verbatim>\<open>lockedSeats\<close> message to the joining connection.\<close>

fun is_snapshot :: "effect \<Rightarrow> bool" where
  "is_snapshot (SocketEmit (LockedSeats _)) = True"
| "is_snapshot _ = False"

subsection \<open>The expiry sweeper\<close>

text \<open>
  One tick of the \<^verbatim>\<open>setInterval\<close> callback at time \<open>now\<close>. Both \<^verbatim>\<open>forEach\<close> loops run
  over the keys that \<^verbatim>\<open>Object.keys\<close> returned before the loop started. The callback
  has no \<^verbatim>\<open>try\<close>: an exception ends it with \<open>Thrown\<close>.
\<close>

fun completion_of :: "js_exn \<Rightarrow> completion" where
  "completion_of OutOfModel = Unmodelled"
| "completion_of _ = Thrown"

fun sweep_seats ::
  "int \<Rightarrow> string \<Rightarrow> string list \<Rightarrow> state \<times> effect list \<Rightarrow> state \<times> effect list \<times> completion" where
  "sweep_seats now e [] (st, out) = (st, out, Normal)"
| "sweep_seats now e (seatIndex # ks) (st, out) =
     (case get_event st e of
        None \<Rightarrow> (st, out, Thrown)
      | Some v \<Rightarrow>
          (case get_member st v seatIndex of
             Inl x \<Rightarrow> (st, out, completion_of x)
           | Inr lock \<Rightarrow>
               (case read_timestamp st lock of
                  Inl x \<Rightarrow> (st, out, completion_of x)
                | Inr t \<Rightarrow>
                    if num_gt (since now t) LOCK_EXPIRY_TIME
                    then (case delete_member st v seatIndex of
                            Inl x \<Rightarrow> (st, out, completion_of x)
                          | Inr st1 \<Rightarrow>
                              sweep_seats now e ks
                                (st1, out @ [RoomEmit (room_of_key e)
                                               (SeatUnlocked (JStr seatIndex))]))
                    else sweep_seats now e ks (st, out))))"

fun sweep_events ::
  "int \<Rightarrow> string list \<Rightarrow> state \<times> effect list \<Rightarrow> state \<times> effect list \<times> completion" where
  "sweep_events now [] (st, out) = (st, out, Normal)"
| "sweep_events now (e # es) (st, out) =
     (case get_event st e of
        None \<Rightarrow> (st, out, Thrown)
      | Some v \<Rightarrow>
          (case sweep_seats now e (Object_keys st v) (st, out) of
             (st1, out1, Normal) \<Rightarrow> sweep_events now es (st1, out1)
           | r \<Rightarrow> r))"

definition sweep :: "int \<Rightarrow> state \<Rightarrow> state \<times> effect list \<times> completion" where
  "sweep now st = sweep_events now (key_order (map fst (table st))) (st, [])"

subsection \<open>States of the examples\<close>

text \<open>
  Three states the server reaches from \<open>init_state\<close> by one granted \<^verbatim>\<open>lockSeat\<close> of
  claimant \<^verbatim>\<open>"A"\<close> at time \<open>0\<close>: on seat \<open>3\<close> of event \<^verbatim>\<open>"E1"\<close>; on the seat
  \<^verbatim>\<open>"__proto__"\<close> of event \<^verbatim>\<open>"E1"\<close>, where the lock record became the prototype of the
  event's object; and on seat \<open>0\<close> of the event \<^verbatim>\<open>"__proto__"\<close>, where the lock record
  became the property \<^verbatim>\<open>"0"\<close> of \<^verbatim>\<open>Object.prototype\<close>.
\<close>

definition lock_A :: obj where
  "lock_A = \<lparr>entries = [UserIdField (JStr ''A''), TimestampField 0], proto = None\<rparr>"

definition ex_locked :: state where
  "ex_locked = init_state
     \<lparr>table := [(''E1'', 0)],
      heap := [\<lparr>entries = [Member ''3'' 1], proto = None\<rparr>, lock_A]\<rparr>"

definition ex_proto_seat :: state where
  "ex_proto_seat = init_state
     \<lparr>table := [(''E1'', 0)],
      heap := [\<lparr>entries = [], proto = Some 1\<rparr>, lock_A]\<rparr>"

definition ex_polluted :: state where
  "ex_polluted = init_state
     \<lparr>objproto := objproto init_state @ [(''0'', Added 0)],
      heap := [lock_A]\<rparr>"

section \<open>Lemmas\<close>

lemma obj_at_lock_bound: "lock_of (obj_at h r) = Some l \<Longrightarrow> r < length h"
  by (cases "r < length h") (auto simp: obj_at_def empty_obj_def lock_of_def)

lemma lock_of_fields:
  "lock_of ob = Some l \<Longrightarrow>
   find_member (entries ob) ''userId'' = Some (Scalar (userId l))
   \<and> find_timestamp (entries ob) = Some (Inl (timestamp l))"
  by (auto simp: lock_of_def split: option.splits anyval.splits sum.splits)

lemma lock_atD:
  "lock_at st e s = Some l \<Longrightarrow>
   \<exists>v r. get_event st e = Some v \<and> get_member st v s = Inr (Obj (ORef r))
        \<and> lock_of (obj_at (heap st) r) = Some l"
  by (auto simp: lock_at_def lock_ref_def
           split: option.splits sum.splits anyval.splits objval.splits)

lemma read_timestamp_lock:
  assumes "lock_of (obj_at (heap st) r) = Some l"
  shows "read_timestamp st (Obj (ORef r)) = Inr (Num (timestamp l))"
proof -
  from obj_at_lock_bound [OF assms] obtain n where n: "length (heap st) = Suc n"
    by (cases "length (heap st)") auto
  from lock_of_fields [OF assms]
  have "find_timestamp (entries (obj_at (heap st) r)) = Some (Inl (timestamp l))" by simp
  then show ?thesis by (simp add: read_timestamp_def n)
qed

lemma read_userId_lock:
  assumes "lock_of (obj_at (heap st) r) = Some l"
  shows "read_userId st (Obj (ORef r)) = Inr (Scalar (userId l))"
proof -
  from obj_at_lock_bound [OF assms] obtain n where n: "length (heap st) = Suc n"
    by (cases "length (heap st)") auto
  from lock_of_fields [OF assms]
  have "find_member (entries (obj_at (heap st) r)) ''userId'' = Some (Scalar (userId l))" by simp
  then show ?thesis by (simp add: read_userId_def n)
qed

lemma ensure_event_present: "get_event st e = Some v \<Longrightarrow> ensure_event e st = (st, v)"
  by (simp add: ensure_event_def)

lemma lockSeat_try_conflict:
  assumes "truthy eventId" "seatIndex \<noteq> JUndefined" "truthy uid"
    and "get_event st (ToString eventId) = Some v"
    and "get_member st v (ToString seatIndex) = Inr (Obj (ORef r))"
    and "lock_of (obj_at (heap st) r) = Some l"
    and "now - timestamp l \<le> LOCK_EXPIRY_TIME" "userId l \<noteq> uid"
  shows "lockSeat_try eventId seatIndex uid now st =
     (st, [SocketEmit (SeatLockFailed seatIndex ''Seat already locked'')], Inr ())"
  using assms
  by (simp add: lockSeat_try_def ensure_event_present read_timestamp_lock read_userId_lock)

lemma lockSeat_try_renew:
  assumes "truthy eventId" "seatIndex \<noteq> JUndefined" "truthy uid"
    and "get_event st (ToString eventId) = Some v"
    and "get_member st v (ToString seatIndex) = Inr (Obj (ORef r))"
    and "lock_of (obj_at (heap st) r) = Some l"
    and "now - timestamp l \<le> LOCK_EXPIRY_TIME" "userId l = uid"
  shows "lockSeat_try eventId seatIndex uid now st = (set_timestamp r now st, [], Inr ())"
  using assms
  by (simp add: lockSeat_try_def ensure_event_present read_timestamp_lock read_userId_lock
        renew_def)

lemma put_timestamp_same:
  "find_timestamp es = Some (Inl t) \<Longrightarrow> put_entry (TimestampField t) es = es"
proof (induction es)
  case Nil
  then show ?case by simp
next
  case (Cons x es)
  then show ?case by (cases x) (auto split: if_splits)
qed

lemma find_timestamp_put: "find_timestamp (put_entry (TimestampField t) es) = Some (Inl t)"
proof (induction es)
  case Nil
  then show ?case by simp
next
  case (Cons x es)
  then show ?case by (cases x) auto
qed

lemma find_member_timestamp:
  "find_timestamp es = Some (Inl t) \<Longrightarrow> find_member es ''timestamp'' = Some (Scalar (JNum t))"
proof (induction es)
  case Nil
  then show ?case by simp
next
  case (Cons x es)
  then show ?case by (cases x) (auto split: if_splits)
qed

lemma find_member_put_timestamp:
  "find_member (put_entry (TimestampField t) es) k =
     (if k = ''timestamp'' then Some (Scalar (JNum t)) else find_member es k)"
  by (induction es) auto

lemma heap_set_timestamp:
  "heap (set_timestamp r t st) =
     (heap st)[r := (obj_at (heap st) r)\<lparr>entries := put_entry (TimestampField t) (entries (obj_at (heap st) r))\<rparr>]"
  by (simp add: set_timestamp_def set_entries_def)

lemma frame_set_timestamp:
  "table (set_timestamp r t st) = table st"
  "objproto (set_timestamp r t st) = objproto st"
  "length (heap (set_timestamp r t st)) = length (heap st)"
  by (simp_all add: set_timestamp_def set_entries_def)

lemma obj_at_set_timestamp:
  "r < length (heap st) \<Longrightarrow>
   obj_at (heap (set_timestamp r t st)) r' =
     (if r' = r
      then (obj_at (heap st) r)\<lparr>entries := put_entry (TimestampField t) (entries (obj_at (heap st) r))\<rparr>
      else obj_at (heap st) r')"
  by (auto simp: heap_set_timestamp obj_at_def)

lemma objproto_get_set_timestamp: "objproto_get (set_timestamp r t st) k = objproto_get st k"
  by (simp add: objproto_get_def frame_set_timestamp)

lemma get_event_set_timestamp: "get_event (set_timestamp r t st) e = get_event st e"
  by (simp add: get_event_def objproto_get_set_timestamp frame_set_timestamp
           split: option.splits)

lemma chain_find_set_timestamp:
  assumes "r < length (heap st)"
    and "find_timestamp (entries (obj_at (heap st) r)) = Some (Inl t0)"
  shows "chain_find n (heap (set_timestamp r t st)) r1 k = chain_find n (heap st) r1 k
       \<or> (\<exists>a b. chain_find n (heap st) r1 k = Some (Scalar (JNum a))
                \<and> chain_find n (heap (set_timestamp r t st)) r1 k = Some (Scalar (JNum b)))"
proof (induction n arbitrary: r1)
  case 0
  then show ?case by simp
next
  case (Suc n)
  show ?case
  proof (cases "r1 = r")
    case False
    then have same: "obj_at (heap (set_timestamp r t st)) r1 = obj_at (heap st) r1"
      using assms(1) by (simp add: obj_at_set_timestamp)
    show ?thesis
    proof (cases "find_member (entries (obj_at (heap st) r1)) k")
      case (Some x)
      then show ?thesis by (simp add: same)
    next
      case None
      then show ?thesis
        using Suc.IH by (cases "proto (obj_at (heap st) r1)") (simp_all add: same)
    qed
  next
    case True
    let ?es = "entries (obj_at (heap st) r)"
    have ob: "obj_at (heap (set_timestamp r t st)) r =
        (obj_at (heap st) r)\<lparr>entries := put_entry (TimestampField t) ?es\<rparr>"
      using assms(1) by (simp add: obj_at_set_timestamp)
    show ?thesis
    proof (cases "k = ''timestamp''")
      case k: True
      have "find_member ?es ''timestamp'' = Some (Scalar (JNum t0))"
        using assms(2) by (rule find_member_timestamp)
      then show ?thesis
        by (simp add: True k ob find_member_put_timestamp)
    next
      case k: False
      show ?thesis
      proof (cases "find_member ?es k")
        case (Some x)
        then show ?thesis by (simp add: True k ob find_member_put_timestamp)
      next
        case None
        then show ?thesis
          using Suc.IH
          by (cases "proto (obj_at (heap st) r)")
             (simp_all add: True k ob find_member_put_timestamp)
      qed
    qed
  qed
qed

lemma get_member_set_timestamp:
  assumes "r < length (heap st)"
    and "find_timestamp (entries (obj_at (heap st) r)) = Some (Inl t0)"
    and "get_member st v k = Inr (Obj x)"
  shows "get_member (set_timestamp r t st) v k = Inr (Obj x)"
proof (cases v)
  case (ORef r1)
  have pr: "proto (obj_at (heap (set_timestamp r t st)) r1) = proto (obj_at (heap st) r1)"
    using assms(1) by (simp add: obj_at_set_timestamp)
  from chain_find_set_timestamp [OF assms(1,2), of "length (heap st)" t r1 k]
  show ?thesis
    using assms(3) ORef
    by (auto simp: get_member_def frame_set_timestamp objproto_get_set_timestamp pr
             split: option.splits if_splits)
next
  case OProto
  then show ?thesis
    using assms(3)
    by (auto simp: get_member_def objproto_get_set_timestamp split: option.splits if_splits)
next
  case (OBuiltin b)
  then show ?thesis using assms(3) by (simp add: get_member_def)
qed

lemma lock_of_set_timestamp:
  assumes "lock_of (obj_at (heap st) r) = Some l"
  shows "lock_of (obj_at (heap (set_timestamp r t st)) r) = Some \<lparr>userId = userId l, timestamp = t\<rparr>"
proof -
  have b: "r < length (heap st)" using assms by (rule obj_at_lock_bound)
  from lock_of_fields [OF assms]
  show ?thesis
    by (simp add: lock_of_def obj_at_set_timestamp [OF b] find_member_put_timestamp
          find_timestamp_put)
qed

lemma set_timestamp_same:
  assumes "lock_of (obj_at (heap st) r) = Some l"
  shows "set_timestamp r (timestamp l) st = st"
proof -
  have b: "r < length (heap st)" using assms by (rule obj_at_lock_bound)
  from lock_of_fields [OF assms]
  have "put_entry (TimestampField (timestamp l)) (entries (obj_at (heap st) r))
          = entries (obj_at (heap st) r)"
    by (simp add: put_timestamp_same)
  then have "(heap st)[r := (obj_at (heap st) r)\<lparr>entries :=
      put_entry (TimestampField (timestamp l)) (entries (obj_at (heap st) r))\<rparr>] = heap st"
    using b by (simp add: obj_at_def)
  then show ?thesis by (simp add: set_timestamp_def set_entries_def)
qed

lemma get_member_set_timestamp_cases:
  assumes "r < length (heap st)"
    and "find_timestamp (entries (obj_at (heap st) r)) = Some (Inl t0)"
  shows "get_member (set_timestamp r t st) v k = get_member st v k
       \<or> (\<exists>a b. get_member st v k = Inr (Scalar (JNum a))
                \<and> get_member (set_timestamp r t st) v k = Inr (Scalar (JNum b)))"
proof (cases v)
  case (ORef r1)
  have pr: "proto (obj_at (heap (set_timestamp r t st)) r1) = proto (obj_at (heap st) r1)"
    using assms(1) by (simp add: obj_at_set_timestamp)
  from chain_find_set_timestamp [OF assms(1,2), of "length (heap st)" t r1 k]
  show ?thesis
    using ORef
    by (auto simp: get_member_def frame_set_timestamp objproto_get_set_timestamp pr
             split: option.splits)
next
  case OProto
  then show ?thesis by (simp add: get_member_def objproto_get_set_timestamp)
next
  case (OBuiltin b)
  then show ?thesis by (simp add: get_member_def)
qed

lemma lock_ref_set_timestamp:
  assumes "r < length (heap st)"
    and "find_timestamp (entries (obj_at (heap st) r)) = Some (Inl t0)"
  shows "lock_ref (set_timestamp r t st) e s = lock_ref st e s"
proof (cases "get_event st e")
  case None
  then show ?thesis by (simp add: lock_ref_def get_event_set_timestamp)
next
  case (Some v)
  from get_member_set_timestamp_cases [OF assms, of t v s]
  show ?thesis
    using Some by (auto simp: lock_ref_def get_event_set_timestamp)
qed

lemma lock_at_set_timestamp:
  assumes "lock_of (obj_at (heap st) r) = Some l"
  shows "lock_at (set_timestamp r t st) e s =
     (if lock_ref st e s = Some r then Some \<lparr>userId = userId l, timestamp = t\<rparr>
      else lock_at st e s)"
proof -
  have b: "r < length (heap st)" using assms by (rule obj_at_lock_bound)
  have ts: "find_timestamp (entries (obj_at (heap st) r)) = Some (Inl (timestamp l))"
    using lock_of_fields [OF assms] by simp
  have ref: "lock_ref (set_timestamp r t st) e s = lock_ref st e s"
    using lock_ref_set_timestamp [OF b ts] .
  show ?thesis
  proof (cases "lock_ref st e s")
    case None
    then show ?thesis by (simp add: lock_at_def ref)
  next
    case (Some r1)
    show ?thesis
    proof (cases "r1 = r")
      case True
      then show ?thesis
        using Some lock_of_set_timestamp [OF assms, of t] by (simp add: lock_at_def ref)
    next
      case False
      then show ?thesis
        using Some b by (simp add: lock_at_def ref obj_at_set_timestamp)
    qed
  qed
qed

text \<open>The states of the examples are reached from the initial state.\<close>

lemma reach_ex_locked:
  "lockSeat (Payload (JStr ''E1'') (JNum 3) (JStr ''A'')) 0 init_state =
     (ex_locked, [RoomEmit ''event-E1'' (SeatLocked (JNum 3) (JStr ''A''))], Normal)"
  by code_simp

lemma reach_ex_proto_seat:
  "lockSeat (Payload (JStr ''E1'') (JStr ''__proto__'') (JStr ''A'')) 0 init_state =
     (ex_proto_seat, [RoomEmit ''event-E1'' (SeatLocked (JStr ''__proto__'') (JStr ''A''))], Normal)"
  by code_simp

lemma reach_ex_polluted:
  "lockSeat (Payload (JStr ''__proto__'') (JNum 0) (JStr ''A'')) 0 init_state =
     (ex_polluted, [RoomEmit ''event-__proto__'' (SeatLocked (JNum 0) (JStr ''A''))], Normal)"
  by code_simp

lemma lock_at_ex_locked:
  "lock_at ex_locked ''E1'' ''3'' = Some \<lparr>userId = JStr ''A'', timestamp = 0\<rparr>"
  by code_simp

lemma ToString_3: "ToString (JNum 3) = ''3''"
  by (simp add: show_nat.simps digit_char_def)

text \<open>
  A \<^verbatim>\<open>lockSeat\<close> or \<^verbatim>\<open>unlockSeat\<close> message with no argument, or with \<^verbatim>\<open>null\<close>, raises in
  the parameter list, outside the \<^verbatim>\<open>try\<close>: nothing is sent and the exception reaches the
  caller.
\<close>

lemma lockSeat_without_payload:
  "lockSeat NoPayload now st = (st, [], Thrown)"
  by (simp add: lockSeat_def)

lemma unlockSeat_without_payload:
  "unlockSeat NoPayload now st = (st, [], Thrown)"
  by (simp add: unlockSeat_def)

lemma object_to_number_in_model: "object_to_number st v \<noteq> Inl OutOfModel"
  by (auto simp: object_to_number_def split: objval.splits sum.splits anyval.splits)

lemma read_timestamp_in_model: "read_timestamp st lock \<noteq> Inl OutOfModel"
  by (auto simp: read_timestamp_def object_to_number_in_model split: option.splits sum.splits)

lemma read_userId_in_model: "read_userId st lock \<noteq> Inl OutOfModel"
  by (auto simp: read_userId_def split: option.splits)

lemma get_member_in_model: "get_member st (ORef r) k \<noteq> Inl x" "get_member st OProto k \<noteq> Inl x"
  by (simp_all add: get_member_def)

lemma collect_active_in_model:
  assumes "\<And>b. v \<noteq> OBuiltin b"
  shows "collect_active now st v ks acc \<noteq> Inl OutOfModel"
proof (induction ks arbitrary: acc)
  case Nil
  then show ?case by simp
next
  case (Cons k ks)
  from assms obtain x where x: "get_member st v k = Inr x"
    by (cases v) (auto simp: get_member_def)
  show ?case
    using Cons.IH read_timestamp_in_model [of st x] read_userId_in_model [of st x]
    by (auto simp: x split: sum.splits)
qed

lemma joinEvent_try_in_model: "snd (joinEvent_try f eventId now st) \<noteq> Inl OutOfModel"
proof (cases "get_event st (ToString eventId)")
  case None
  then show ?thesis by (simp add: joinEvent_try_def)
next
  case (Some v)
  have "collect_active now st v (Object_keys st v) [] \<noteq> Inl OutOfModel"
  proof (cases v)
    case (OBuiltin b)
    then show ?thesis by (simp add: Object_keys_def)
  qed (simp_all add: collect_active_in_model)
  then show ?thesis
    using Some by (auto simp: joinEvent_try_def split: sum.splits)
qed

text \<open>
  A TypeError inside the loop of \<^verbatim>\<open>joinEvent\<close> is caught like a fault of the socket
  library. After \<^verbatim>\<open>lockSeat\<close> calls for the seats \<^verbatim>\<open>"toString"\<close> and \<^verbatim>\<open>"timestamp"\<close> of the
  event \<^verbatim>\<open>"__proto__"\<close>, both properties of \<^verbatim>\<open>Object.prototype\<close> are lock records;
  \<^verbatim>\<open>joinEvent("toString")\<close> then subtracts an object that cannot be converted to a
  number, and the handler logs the diagnostic and sends no reply.
\<close>

lemma joinEvent_catches_TypeError:
  "joinEvent NoFault (JStr ''toString'') 5
     (fst (lockSeat (Payload (JStr ''__proto__'') (JStr ''timestamp'') (JStr ''A'')) 0
        (fst (lockSeat (Payload (JStr ''__proto__'') (JStr ''toString'') (JStr ''A'')) 0 init_state)))) =
   (fst (lockSeat (Payload (JStr ''__proto__'') (JStr ''timestamp'') (JStr ''A'')) 0
        (fst (lockSeat (Payload (JStr ''__proto__'') (JStr ''toString'') (JStr ''A'')) 0 init_state))),
    [SocketJoin ''event-toString'', ConsoleError ''joinEvent Error:''], Normal)"
  by code_simp

section \<open>Properties of the seat-lock operations\<close>

text \<open>
  C1. A seat holds a lock of claimant \<open>X\<close> that is active at \<open>now\<close>
  (\<open>now - timestamp \<le> LOCK_EXPIRY_TIME\<close>). A \<^verbatim>\<open>lockSeat\<close> call for that seat at the same
  \<open>now\<close> by a claimant \<open>Y\<close> different from \<open>X\<close> sends \<^verbatim>\<open>seatLockFailed\<close> with reason
  \<^verbatim>\<open>Seat already locked\<close> to the requester and nothing else, so no broadcast, and
  the state is the same afterwards. The call is one that passes the handler's
  validation: \<open>eventId\<close> and \<open>Y\<close> are not empty and \<open>seatIndex\<close> is present. The lock is
  whatever lock record \<^verbatim>\<open>lockedSeats[eventId][seatIndex]\<close> finds, an inherited one included.
\<close>

theorem lockSeat_active_other_claimant_denied:
  assumes "truthy eventId" and "seatIndex \<noteq> JUndefined" and "truthy Y"
    and "lock_at lockedSeats (ToString eventId) (ToString seatIndex) = Some l"
    and "now - timestamp l \<le> LOCK_EXPIRY_TIME"
    and "userId l = X" and "Y \<noteq> X"
  shows "lockSeat (Payload eventId seatIndex Y) now lockedSeats =
           (lockedSeats, [SocketEmit (SeatLockFailed seatIndex ''Seat already locked'')], Normal)
       \<and> result_of (fst (snd (lockSeat (Payload eventId seatIndex Y) now lockedSeats)))
           = Denied ''Seat already locked''
       \<and> fst (lockSeat (Payload eventId seatIndex Y) now lockedSeats) = lockedSeats
       \<and> \<not> list_ex is_broadcast (fst (snd (lockSeat (Payload eventId seatIndex Y) now lockedSeats)))"
proof -
  from lock_atD [OF assms(4)] obtain v r
    where v: "get_event lockedSeats (ToString eventId) = Some v"
      and r: "get_member lockedSeats v (ToString seatIndex) = Inr (Obj (ORef r))"
      and l: "lock_of (obj_at (heap lockedSeats) r) = Some l"
    by blast
  have other: "userId l \<noteq> Y" using assms(6,7) by simp
  have "lockSeat_try eventId seatIndex Y now lockedSeats =
     (lockedSeats, [SocketEmit (SeatLockFailed seatIndex ''Seat already locked'')], Inr ())"
    using lockSeat_try_conflict [OF assms(1-3) v r l assms(5) other] .
  then have "lockSeat (Payload eventId seatIndex Y) now lockedSeats =
           (lockedSeats, [SocketEmit (SeatLockFailed seatIndex ''Seat already locked'')], Normal)"
    by (simp add: lockSeat_def)
  then show ?thesis by simp
qed

theorem lockSeat_active_other_claimant_denied_witness:
  "lockSeat (Payload (JStr ''E1'') (JNum 3) (JStr ''B'')) 60000 ex_locked
     = (ex_locked, [SocketEmit (SeatLockFailed (JNum 3) ''Seat already locked'')], Normal)"
  using lockSeat_active_other_claimant_denied
      [of "JStr ''E1''" "JNum 3" "JStr ''B''" ex_locked
          "\<lparr>userId = JStr ''A'', timestamp = 0\<rparr>" 60000 "JStr ''A''"]
  by (simp add: ToString_3 lock_at_ex_locked LOCK_EXPIRY_TIME_def del: ToString.simps(4))

text \<open>
  C2 says that the snapshot of \<^verbatim>\<open>joinEvent\<close> lists every lock that is active. The code
  does not, for the seat \<^verbatim>\<open>"__proto__"\<close>: on a fresh server, \<^verbatim>\<open>lockSeat\<close> of \<^verbatim>\<open>"A"\<close> for seat
  \<^verbatim>\<open>"__proto__"\<close> of \<^verbatim>\<open>"E1"\<close> at time \<open>0\<close> is granted and broadcast; the assignment made
  the lock record the prototype of the event's object. At time \<open>1000\<close> the lock is
  enforced (\<^verbatim>\<open>"B"\<close> is denied with \<^verbatim>\<open>Seat already locked\<close>), yet \<^verbatim>\<open>joinEvent\<close> replies with
  the empty snapshot, because \<^verbatim>\<open>Object.keys\<close> lists own properties only.
\<close>

theorem joinEvent_omits_lock_on_proto_seat:
  "lockSeat (Payload (JStr ''E1'') (JStr ''__proto__'') (JStr ''A'')) 0 init_state =
     (ex_proto_seat, [RoomEmit ''event-E1'' (SeatLocked (JStr ''__proto__'') (JStr ''A''))], Normal)
 \<and> lockSeat (Payload (JStr ''E1'') (JStr ''__proto__'') (JStr ''B'')) 1000 ex_proto_seat =
     (ex_proto_seat, [SocketEmit (SeatLockFailed (JStr ''__proto__'') ''Seat already locked'')], Normal)
 \<and> joinEvent NoFault (JStr ''E1'') 1000 ex_proto_seat =
     (ex_proto_seat, [SocketJoin ''event-E1'', SocketEmit (LockedSeats [])], Normal)"
  by code_simp

theorem joinEvent_omits_lock_on_proto_seat_witness:
  "fst (snd (joinEvent NoFault (JStr ''E1'') 1000 ex_proto_seat)) =
     [SocketJoin ''event-E1'', SocketEmit (LockedSeats [])]"
  using joinEvent_omits_lock_on_proto_seat by simp

text \<open>
  C3 says that a valid \<^verbatim>\<open>lockSeat\<close> on a seat with no active lock is granted. The code
  does not grant the request \<^verbatim>\<open>{eventId: "__proto__", seatIndex: "__proto__", userId: "A"}\<close>
  on a fresh server, where no seat has a lock: \<^verbatim>\<open>lockedSeats["__proto__"]\<close> is
  \<^verbatim>\<open>Object.prototype\<close>, the assignment to its \<^verbatim>\<open>__proto__\<close> raises a TypeError, and the
  requester gets \<^verbatim>\<open>Server error\<close>; nothing is stored and nothing is broadcast. Nor does
  it grant the request of \<^verbatim>\<open>"B"\<close> for seat \<open>3\<close> of the new event \<^verbatim>\<open>"E1"\<close> after a lock of
  \<^verbatim>\<open>"A"\<close> on seat \<open>3\<close> of the event \<^verbatim>\<open>"__proto__"\<close>: that lock is a property of
  \<^verbatim>\<open>Object.prototype\<close>, every event's object inherits it, and \<^verbatim>\<open>"B"\<close> gets
  \<^verbatim>\<open>Seat already locked\<close>.
\<close>

theorem lockSeat_proto_proto_server_error:
  "lock_at init_state ''__proto__'' ''__proto__'' = None
 \<and> lockSeat (Payload (JStr ''__proto__'') (JStr ''__proto__'') (JStr ''A'')) 0 init_state =
     (init_state, [SocketEmit (SeatLockFailed (JStr ''__proto__'') ''Server error'')], Normal)
 \<and> map_of (table (fst (lockSeat (Payload (JStr ''__proto__'') (JNum 3) (JStr ''A'')) 0 init_state)))
       ''E1'' = None
 \<and> fst (snd (lockSeat (Payload (JStr ''E1'') (JNum 3) (JStr ''B'')) 1000
       (fst (lockSeat (Payload (JStr ''__proto__'') (JNum 3) (JStr ''A'')) 0 init_state)))) =
     [SocketEmit (SeatLockFailed (JNum 3) ''Seat already locked'')]"
  by code_simp

theorem lockSeat_proto_proto_server_error_witness:
  "result_of (fst (snd (lockSeat (Payload (JStr ''__proto__'') (JStr ''__proto__'') (JStr ''A'')) 0
      init_state))) = Denied ''Server error''"
  using lockSeat_proto_proto_server_error by simp

text \<open>
  C4. A seat is actively locked by \<open>X\<close>, and \<open>X\<close> calls \<^verbatim>\<open>lockSeat\<close> for it again at
  \<open>now'\<close> with \<open>now' - timestamp \<le> LOCK_EXPIRY_TIME\<close>. The call is granted and sends
  no message at all; the seat's lock has timestamp \<open>now'\<close> and still the claimant \<open>X\<close>.
  Nothing else changes: \<^verbatim>\<open>lockedSeats\<close> and \<^verbatim>\<open>Object.prototype\<close> keep their properties and
  every object but the lock record \<open>r\<close> is as it was. So every seat of every event has
  the lock it had, except the seats whose lookup ends at the same record \<open>r\<close> (one record
  can be inherited under several keys), which show the renewed lock. When \<open>now'\<close> equals
  the stored timestamp the state is the same afterwards, and repeating the call at the
  same \<open>now'\<close> changes nothing more.
\<close>

theorem lockSeat_renewal_silent:
  assumes "truthy eventId" and "seatIndex \<noteq> JUndefined" and "truthy X"
    and "lock_at lockedSeats (ToString eventId) (ToString seatIndex) = Some l"
    and "userId l = X"
    and "now' - timestamp l \<le> LOCK_EXPIRY_TIME"
  shows "\<exists>lockedSeats' r.
           lockSeat (Payload eventId seatIndex X) now' lockedSeats = (lockedSeats', [], Normal)
         \<and> result_of (fst (snd (lockSeat (Payload eventId seatIndex X) now' lockedSeats))) = Granted
         \<and> lock_at lockedSeats' (ToString eventId) (ToString seatIndex) =
             Some \<lparr>userId = X, timestamp = now'\<rparr>
         \<and> lock_ref lockedSeats (ToString eventId) (ToString seatIndex) = Some r
         \<and> table lockedSeats' = table lockedSeats
         \<and> objproto lockedSeats' = objproto lockedSeats
         \<and> length (heap lockedSeats') = length (heap lockedSeats)
         \<and> (\<forall>r'. r' \<noteq> r \<longrightarrow> obj_at (heap lockedSeats') r' = obj_at (heap lockedSeats) r')
         \<and> (\<forall>e s. lock_at lockedSeats' e s =
               (if lock_ref lockedSeats e s = Some r then Some \<lparr>userId = X, timestamp = now'\<rparr>
                else lock_at lockedSeats e s))
         \<and> (now' = timestamp l \<longrightarrow> lockedSeats' = lockedSeats)
         \<and> lockSeat (Payload eventId seatIndex X) now' lockedSeats' = (lockedSeats', [], Normal)"
proof -
  let ?e = "ToString eventId" and ?s = "ToString seatIndex"
  from lock_atD [OF assms(4)] obtain v r
    where v: "get_event lockedSeats ?e = Some v"
      and r: "get_member lockedSeats v ?s = Inr (Obj (ORef r))"
      and l: "lock_of (obj_at (heap lockedSeats) r) = Some l"
    by blast
  let ?st' = "set_timestamp r now' lockedSeats"
  have b: "r < length (heap lockedSeats)" using l by (rule obj_at_lock_bound)
  have ts: "find_timestamp (entries (obj_at (heap lockedSeats) r)) = Some (Inl (timestamp l))"
    using lock_of_fields [OF l] by simp
  have step: "lockSeat (Payload eventId seatIndex X) now' lockedSeats = (?st', [], Normal)"
    using lockSeat_try_renew [OF assms(1-3) v r l assms(6,5)] by (simp add: lockSeat_def)
  have ref: "lock_ref lockedSeats ?e ?s = Some r"
    using v r by (simp add: lock_ref_def)
  have v': "get_event ?st' ?e = Some v"
    using v by (simp add: get_event_set_timestamp)
  have r': "get_member ?st' v ?s = Inr (Obj (ORef r))"
    using get_member_set_timestamp [OF b ts r] .
  have l': "lock_of (obj_at (heap ?st') r) = Some \<lparr>userId = X, timestamp = now'\<rparr>"
    using lock_of_set_timestamp [OF l, of now'] assms(5) by simp
  have at: "lock_at ?st' ?e ?s = Some \<lparr>userId = X, timestamp = now'\<rparr>"
    using v' r' l' by (simp add: lock_at_def lock_ref_def)
  have others: "\<forall>r'. r' \<noteq> r \<longrightarrow> obj_at (heap ?st') r' = obj_at (heap lockedSeats) r'"
    using b by (simp add: obj_at_set_timestamp)
  have seats: "\<forall>e s. lock_at ?st' e s =
               (if lock_ref lockedSeats e s = Some r then Some \<lparr>userId = X, timestamp = now'\<rparr>
                else lock_at lockedSeats e s)"
    using lock_at_set_timestamp [OF l, of now'] assms(5) by simp
  have same: "now' = timestamp l \<longrightarrow> ?st' = lockedSeats"
    using set_timestamp_same [OF l] by auto
  have "lockSeat_try eventId seatIndex X now' ?st' = (set_timestamp r now' ?st', [], Inr ())"
    using lockSeat_try_renew [OF assms(1-3) v' r' l', of now'] by (simp add: LOCK_EXPIRY_TIME_def)
  moreover have "set_timestamp r now' ?st' = ?st'"
    using set_timestamp_same [OF l'] by simp
  ultimately have again: "lockSeat (Payload eventId seatIndex X) now' ?st' = (?st', [], Normal)"
    by (simp add: lockSeat_def)
  show ?thesis
    using step ref at others seats same again by (simp add: frame_set_timestamp)
qed

theorem lockSeat_renewal_silent_witness:
  "\<exists>st'. lockSeat (Payload (JStr ''E1'') (JNum 3) (JStr ''A'')) 60000 ex_locked = (st', [], Normal)
       \<and> lock_at st' ''E1'' ''3'' = Some \<lparr>userId = JStr ''A'', timestamp = 60000\<rparr>"
  using lockSeat_renewal_silent
      [of "JStr ''E1''" "JNum 3" "JStr ''A''" ex_locked
          "\<lparr>userId = JStr ''A'', timestamp = 0\<rparr>" 60000]
  by (simp add: ToString_3 lock_at_ex_locked LOCK_EXPIRY_TIME_def del: ToString.simps(4)) blast

text \<open>
  C5 as stated fails for an empty \<open>seatIndex\<close>: the validation compares \<open>seatIndex\<close>
  with \<^verbatim>\<open>undefined\<close> only, so the request \<^verbatim>\<open>{eventId: "E1", seatIndex: "", userId: "A"}\<close>
  on the initial state is not denied: it stores a lock under the key \<^verbatim>\<open>""\<close> and
  broadcasts \<^verbatim>\<open>seatLocked\<close>.
\<close>

theorem lockSeat_empty_seatIndex_counterexample:
  "lockSeat (Payload (JStr ''E1'') (JStr '''') (JStr ''A'')) 0 init_state =
     (init_state
        \<lparr>table := [(''E1'', 0)],
         heap := [\<lparr>entries = [Member '''' 1], proto = None\<rparr>, lock_A]\<rparr>,
      [RoomEmit ''event-E1'' (SeatLocked (JStr '''') (JStr ''A''))], Normal)
 \<and> result_of (fst (snd (lockSeat (Payload (JStr ''E1'') (JStr '''') (JStr ''A'')) 0 init_state)))
     \<noteq> Denied ''Invalid lock request''"
  by code_simp

text \<open>
  C5 (amended). A \<^verbatim>\<open>lockSeat\<close> message that carries an argument (not \<^verbatim>\<open>undefined\<close> or
  \<^verbatim>\<open>null\<close>) in which the value read for \<open>eventId\<close> or for \<open>userId\<close> is missing or empty
  (not truthy: \<^verbatim>\<open>undefined\<close>, \<^verbatim>\<open>null\<close>, \<^verbatim>\<open>false\<close>, \<^verbatim>\<open>0\<close> or the empty string), or the
  value read for \<open>seatIndex\<close> is \<^verbatim>\<open>undefined\<close>, is answered with \<^verbatim>\<open>seatLockFailed\<close>, reason
  \<^verbatim>\<open>Invalid lock request\<close>, to the requester only; the state is unchanged and nothing is
  broadcast.
\<close>

theorem lockSeat_invalid_request_denied:
  assumes "\<not> truthy eventId \<or> seatIndex = JUndefined \<or> \<not> truthy uid"
  shows "lockSeat (Payload eventId seatIndex uid) now lockedSeats =
           (lockedSeats, [SocketEmit (SeatLockFailed seatIndex ''Invalid lock request'')], Normal)
       \<and> result_of (fst (snd (lockSeat (Payload eventId seatIndex uid) now lockedSeats)))
           = Denied ''Invalid lock request''
       \<and> \<not> list_ex is_broadcast (fst (snd (lockSeat (Payload eventId seatIndex uid) now lockedSeats)))"
proof -
  have "lockSeat_try eventId seatIndex uid now lockedSeats =
      (lockedSeats, [SocketEmit (SeatLockFailed seatIndex ''Invalid lock request'')], Inr ())"
    using assms by (auto simp: lockSeat_try_def)
  then show ?thesis by (simp add: lockSeat_def)
qed

theorem lockSeat_invalid_request_denied_witness:
  "lockSeat (Payload (JStr '''') (JNum 3) (JStr ''A'')) 5 ex_locked =
     (ex_locked, [SocketEmit (SeatLockFailed (JNum 3) ''Invalid lock request'')], Normal)
   \<and> lockSeat (Payload (JStr ''E1'') JUndefined (JStr ''A'')) 5 ex_locked =
     (ex_locked, [SocketEmit (SeatLockFailed JUndefined ''Invalid lock request'')], Normal)
   \<and> lockSeat (Payload (JStr ''E1'') (JNum 3) JUndefined) 5 ex_locked =
     (ex_locked, [SocketEmit (SeatLockFailed (JNum 3) ''Invalid lock request'')], Normal)"
  using lockSeat_invalid_request_denied [of "JStr ''''" "JNum 3" "JStr ''A''" 5 ex_locked]
    lockSeat_invalid_request_denied [of "JStr ''E1''" JUndefined "JStr ''A''" 5 ex_locked]
    lockSeat_invalid_request_denied [of "JStr ''E1''" "JNum 3" JUndefined 5 ex_locked]
  by simp

text \<open>
  C6 says that \<^verbatim>\<open>unlockSeat\<close> on a seat with no lock does nothing, and that a release by
  the holder removes the lock. The code does neither for keys that resolve through the
  prototype. With seat \<open>3\<close> of \<^verbatim>\<open>"E1"\<close> locked, \<^verbatim>\<open>unlockSeat\<close> for the never locked seat
  \<^verbatim>\<open>"toString"\<close> of \<^verbatim>\<open>"E1"\<close> with no \<open>userId\<close> finds the inherited function, truthy, and
  broadcasts \<^verbatim>\<open>seatUnlocked\<close>. With the seat \<^verbatim>\<open>"__proto__"\<close> of \<^verbatim>\<open>"E1"\<close> locked by \<^verbatim>\<open>"A"\<close>, the
  release by \<^verbatim>\<open>"A"\<close> broadcasts \<^verbatim>\<open>seatUnlocked\<close>, but \<^verbatim>\<open>delete\<close> removes nothing: the lock
  is still there, and a later \<^verbatim>\<open>lockSeat\<close> of \<^verbatim>\<open>"B"\<close> is denied.
\<close>

theorem unlockSeat_inherited_key_broadcasts:
  "lockSeat (Payload (JStr ''E1'') (JNum 3) (JStr ''A'')) 0 init_state =
     (ex_locked, [RoomEmit ''event-E1'' (SeatLocked (JNum 3) (JStr ''A''))], Normal)
 \<and> lock_at ex_locked ''E1'' ''toString'' = None
 \<and> unlockSeat (Payload (JStr ''E1'') (JStr ''toString'') JUndefined) 1000 ex_locked =
     (ex_locked, [RoomEmit ''event-E1'' (SeatUnlocked (JStr ''toString''))], Normal)
 \<and> lockSeat (Payload (JStr ''E1'') (JStr ''__proto__'') (JStr ''A'')) 0 init_state =
     (ex_proto_seat, [RoomEmit ''event-E1'' (SeatLocked (JStr ''__proto__'') (JStr ''A''))], Normal)
 \<and> lock_at ex_proto_seat ''E1'' ''__proto__'' = Some \<lparr>userId = JStr ''A'', timestamp = 0\<rparr>
 \<and> unlockSeat (Payload (JStr ''E1'') (JStr ''__proto__'') (JStr ''A'')) 1000 ex_proto_seat =
     (ex_proto_seat, [RoomEmit ''event-E1'' (SeatUnlocked (JStr ''__proto__''))], Normal)
 \<and> lockSeat (Payload (JStr ''E1'') (JStr ''__proto__'') (JStr ''B'')) 2000 ex_proto_seat =
     (ex_proto_seat, [SocketEmit (SeatLockFailed (JStr ''__proto__'') ''Seat already locked'')], Normal)"
  by code_simp

theorem unlockSeat_inherited_key_broadcasts_witness:
  "fst (snd (unlockSeat (Payload (JStr ''E1'') (JStr ''toString'') JUndefined) 1000 ex_locked)) =
     [RoomEmit ''event-E1'' (SeatUnlocked (JStr ''toString''))]
 \<and> fst (unlockSeat (Payload (JStr ''E1'') (JStr ''__proto__'') (JStr ''A'')) 1000 ex_proto_seat) =
     ex_proto_seat"
  using unlockSeat_inherited_key_broadcasts by simp

text \<open>
  C7 says that a sweep tick removes every lock with \<open>S - timestamp > LOCK_EXPIRY_TIME\<close>
  and broadcasts \<^verbatim>\<open>seatUnlocked\<close> for it. The code does not, for the lock of \<^verbatim>\<open>"A"\<close> on the
  seat \<^verbatim>\<open>"__proto__"\<close> of \<^verbatim>\<open>"E1"\<close> taken at time \<open>0\<close>: the tick at \<open>400000\<close> changes nothing
  and sends nothing, because \<^verbatim>\<open>Object.keys\<close> does not list the seat. The same happens
  to the lock of \<^verbatim>\<open>"A"\<close> on seat \<open>0\<close> of the event \<^verbatim>\<open>"__proto__"\<close>, which is stored in
  \<^verbatim>\<open>Object.prototype\<close>: \<^verbatim>\<open>lockedSeats\<close> has no key of its own, and the tick visits no event.
\<close>

theorem sweep_skips_lock_on_proto_seat:
  "lockSeat (Payload (JStr ''E1'') (JStr ''__proto__'') (JStr ''A'')) 0 init_state =
     (ex_proto_seat, [RoomEmit ''event-E1'' (SeatLocked (JStr ''__proto__'') (JStr ''A''))], Normal)
 \<and> lock_at ex_proto_seat ''E1'' ''__proto__'' = Some \<lparr>userId = JStr ''A'', timestamp = 0\<rparr>
 \<and> sweep 400000 ex_proto_seat = (ex_proto_seat, [], Normal)
 \<and> lockSeat (Payload (JStr ''__proto__'') (JNum 0) (JStr ''A'')) 0 init_state =
     (ex_polluted, [RoomEmit ''event-__proto__'' (SeatLocked (JNum 0) (JStr ''A''))], Normal)
 \<and> lock_at ex_polluted ''__proto__'' ''0'' = Some \<lparr>userId = JStr ''A'', timestamp = 0\<rparr>
 \<and> sweep 400000 ex_polluted = (ex_polluted, [], Normal)"
  by code_simp

theorem sweep_skips_lock_on_proto_seat_witness:
  "fst (snd (sweep 400000 ex_proto_seat)) = []"
  using sweep_skips_lock_on_proto_seat by simp

text \<open>
  C8 as stated fails: when \<^verbatim>\<open>socket.join\<close> raises, the \<^verbatim>\<open>catch\<close> block only logs
  \<^verbatim>\<open>joinEvent Error:\<close>; no \<^verbatim>\<open>lockedSeats\<close> message, empty or not, is sent to the joining
  connection.
\<close>

theorem joinEvent_fault_counterexample:
  "joinEvent JoinThrows (JStr ''E1'') 0 init_state =
     (init_state, [ConsoleError ''joinEvent Error:''], Normal)
 \<and> SocketEmit (LockedSeats []) \<notin> set (fst (snd (joinEvent JoinThrows (JStr ''E1'') 0 init_state)))"
  by (simp add: joinEvent_def joinEvent_try_def)

text \<open>
  C8 (amended). \<^verbatim>\<open>joinEvent\<close> never propagates an exception: for every input and every
  fault the handler completes normally. When a fault occurs it records the diagnostic
  \<^verbatim>\<open>joinEvent Error:\<close> and sends no \<^verbatim>\<open>lockedSeats\<close> reply: after a fault in \<^verbatim>\<open>socket.join\<close>
  the diagnostic is the only effect, after a fault in \<^verbatim>\<open>socket.emit\<close> the effects are the
  join of the room and the diagnostic. The same holds for whatever the \<^verbatim>\<open>try\<close> block
  raises, a TypeError of the loop included: no \<^verbatim>\<open>lockedSeats\<close> message is among the
  effects and the diagnostic is the last of them. When nothing is raised, the effects are
  the join of the room and one \<^verbatim>\<open>lockedSeats\<close> reply.
\<close>

theorem joinEvent_fault_contained:
  "snd (snd (joinEvent f eventId now lockedSeats)) = Normal
 \<and> (f = JoinThrows \<longrightarrow>
      joinEvent f eventId now lockedSeats =
        (lockedSeats, [ConsoleError ''joinEvent Error:''], Normal))
 \<and> (f = EmitThrows \<longrightarrow>
      joinEvent f eventId now lockedSeats =
        (lockedSeats, [SocketJoin (room eventId), ConsoleError ''joinEvent Error:''], Normal))
 \<and> (\<forall>x. snd (joinEvent_try f eventId now lockedSeats) = Inl x \<longrightarrow>
      \<not> list_ex is_snapshot (fst (snd (joinEvent f eventId now lockedSeats)))
      \<and> last (fst (snd (joinEvent f eventId now lockedSeats))) = ConsoleError ''joinEvent Error:'')
 \<and> (snd (joinEvent_try f eventId now lockedSeats) = Inr () \<longrightarrow>
      (\<exists>activeLocks. fst (snd (joinEvent f eventId now lockedSeats)) =
         [SocketJoin (room eventId), SocketEmit (LockedSeats activeLocks)]))"
proof (intro conjI impI allI)
  show "snd (snd (joinEvent f eventId now lockedSeats)) = Normal"
    using joinEvent_try_in_model [of f eventId now lockedSeats]
    by (auto simp: joinEvent_def split: prod.splits sum.splits js_exn.splits)
next
  assume "f = JoinThrows"
  then show "joinEvent f eventId now lockedSeats =
        (lockedSeats, [ConsoleError ''joinEvent Error:''], Normal)"
    by (simp add: joinEvent_def joinEvent_try_def)
next
  assume f: "f = EmitThrows"
  have "\<exists>x. joinEvent_try f eventId now lockedSeats = ([SocketJoin (room eventId)], Inl x)"
    using f by (auto simp: joinEvent_try_def split: sum.splits)
  then obtain x where x: "joinEvent_try f eventId now lockedSeats = ([SocketJoin (room eventId)], Inl x)"
    by blast
  with joinEvent_try_in_model [of f eventId now lockedSeats] have "x \<noteq> OutOfModel" by auto
  then show "joinEvent f eventId now lockedSeats =
        (lockedSeats, [SocketJoin (room eventId), ConsoleError ''joinEvent Error:''], Normal)"
    using x by (cases x) (simp_all add: joinEvent_def)
next
  fix x
  assume x: "snd (joinEvent_try f eventId now lockedSeats) = Inl x"
  with joinEvent_try_in_model [of f eventId now lockedSeats] have m: "x \<noteq> OutOfModel" by auto
  have "fst (joinEvent_try f eventId now lockedSeats) = []
      \<or> fst (joinEvent_try f eventId now lockedSeats) = [SocketJoin (room eventId)]"
    using x by (auto simp: joinEvent_try_def split: sum.splits if_splits)
  then have out: "fst (snd (joinEvent f eventId now lockedSeats)) = [ConsoleError ''joinEvent Error:'']
      \<or> fst (snd (joinEvent f eventId now lockedSeats)) =
          [SocketJoin (room eventId), ConsoleError ''joinEvent Error:'']"
    using x m by (cases "joinEvent_try f eventId now lockedSeats"; cases x) (auto simp: joinEvent_def)
  from out show "\<not> list_ex is_snapshot (fst (snd (joinEvent f eventId now lockedSeats)))"
    by auto
  from out show "last (fst (snd (joinEvent f eventId now lockedSeats))) = ConsoleError ''joinEvent Error:''"
    by auto
next
  assume "snd (joinEvent_try f eventId now lockedSeats) = Inr ()"
  then show "\<exists>activeLocks. fst (snd (joinEvent f eventId now lockedSeats)) =
         [SocketJoin (room eventId), SocketEmit (LockedSeats activeLocks)]"
    by (auto simp: joinEvent_def joinEvent_try_def split: sum.splits if_splits)
qed

theorem joinEvent_fault_contained_witness:
  "joinEvent JoinThrows (JStr ''E1'') 5 ex_locked
     = (ex_locked, [ConsoleError ''joinEvent Error:''], Normal)
 \<and> joinEvent EmitThrows (JStr ''E1'') 5 ex_locked
     = (ex_locked, [SocketJoin (room (JStr ''E1'')), ConsoleError ''joinEvent Error:''], Normal)"
  using joinEvent_fault_contained [of JoinThrows "JStr ''E1''" 5 ex_locked]
    joinEvent_fault_contained [of EmitThrows "JStr ''E1''" 5 ex_locked]
  by simp

text \<open>
  C9. For every \<open>eventId\<close>, every time and every state, with or without a fault,
  \<^verbatim>\<open>joinEvent\<close> leaves \<^verbatim>\<open>lockedSeats\<close> and every object as they were: no entry is created,
  removed or modified, expired entries included.
\<close>

theorem joinEvent_table_unchanged:
  "fst (joinEvent f eventId now lockedSeats) = lockedSeats"
  by (simp add: joinEvent_def split: prod.splits sum.splits js_exn.splits)

theorem joinEvent_table_unchanged_witness:
  "fst (joinEvent NoFault (JStr ''E1'') 300001 ex_locked) = ex_locked"
  using joinEvent_table_unchanged [of NoFault "JStr ''E1''" 300001 ex_locked]
  by simp

text \<open>
  C10 says that a valid request with \<open>seatIndex\<close> \<open>0\<close> or \<^verbatim>\<open>""\<close> on a seat with no active
  lock is granted. The code denies one after a lock on the same seat of the event
  \<^verbatim>\<open>"__proto__"\<close>: that lock was stored as a property of \<^verbatim>\<open>Object.prototype\<close>, and the
  never locked seat \<open>0\<close> (or \<^verbatim>\<open>""\<close>) of the new event \<^verbatim>\<open>"E1"\<close> inherits it, so \<^verbatim>\<open>"B"\<close> gets
  \<^verbatim>\<open>Seat already locked\<close>.
\<close>

theorem lockSeat_seat_zero_denied_after_proto_event:
  "lockSeat (Payload (JStr ''__proto__'') (JNum 0) (JStr ''A'')) 0 init_state =
     (ex_polluted, [RoomEmit ''event-__proto__'' (SeatLocked (JNum 0) (JStr ''A''))], Normal)
 \<and> map_of (table ex_polluted) ''E1'' = None
 \<and> lockSeat (Payload (JStr ''E1'') (JNum 0) (JStr ''B'')) 1000 ex_polluted =
     (ex_polluted\<lparr>table := [(''E1'', 1)], heap := [lock_A, empty_obj]\<rparr>,
      [SocketEmit (SeatLockFailed (JNum 0) ''Seat already locked'')], Normal)
 \<and> lockSeat (Payload (JStr ''E1'') (JStr '''') (JStr ''B'')) 1000
       (fst (lockSeat (Payload (JStr ''__proto__'') (JStr '''') (JStr ''A'')) 0 init_state)) =
     (init_state\<lparr>table := [(''E1'', 1)], objproto := objproto init_state @ [('''', Added 0)],
                 heap := [lock_A, empty_obj]\<rparr>,
      [SocketEmit (SeatLockFailed (JStr '''') ''Seat already locked'')], Normal)"
  by code_simp

theorem lockSeat_seat_zero_denied_after_proto_event_witness:
  "result_of (fst (snd (lockSeat (Payload (JStr ''E1'') (JNum 0) (JStr ''B'')) 1000 ex_polluted)))
     = Denied ''Seat already locked''"
  using lockSeat_seat_zero_denied_after_proto_event by simp

end
